theory Spec2Isabelle
  imports Complex_Main "HOL-Library.Word" "HOL-Library.Signed_Division"
begin

section \<open>Go values and the collaborators of the reporter\<close>

text \<open>
  The reporter of \<^verbatim>\<open>influxdb.go\<close> talks to four collaborators that are not part of it:
  the metrics registry, the InfluxDB client, the operating system (host name, clock) and
  the logger. Their answers are inputs of the model: the \<open>world\<close> record below holds, for
  every external call, what the call answers the k-th time it is made, and a record of the
  calls made so far. The reporter's own code is translated function by function.
\<close>

type_synonym int64 = "64 word"

text \<open>A Go \<^verbatim>\<open>error\<close> value is represented by its message; \<^verbatim>\<open>nil\<close> is \<open>None\<close>.\<close>

type_synonym error = string

text \<open>A \<^verbatim>\<open>time.Time\<close> reading of the wall clock.\<close>

type_synonym instant = int

text \<open>A parsed \<^verbatim>\<open>url.URL\<close>; what the parser makes of the text is the parser's business.\<close>

datatype url = Parsed string

text \<open>
  A \<^verbatim>\<open>*client.Client\<close>: \<open>None\<close> is the nil pointer, \<open>Some n\<close> the client object with
  identity \<open>n\<close>.
\<close>

type_synonym client_ptr = "nat option"

text \<open>
  \<^verbatim>\<open>float64\<close> is a type parameter \<open>'f\<close> of the whole development. The two operations the
  reporter applies to floats are parameters as well: the division \<^verbatim>\<open>/\<close> on \<^verbatim>\<open>float64\<close> and the
  conversion \<^verbatim>\<open>float64(x)\<close> of an \<^verbatim>\<open>int64\<close>.
\<close>

record 'f float64_ops =
  fdiv :: "'f \<Rightarrow> 'f \<Rightarrow> 'f"
  float64 :: "int64 \<Rightarrow> 'f"

text \<open>
  Division of two \<^verbatim>\<open>int64\<close> in Go truncates toward zero (and wraps in the one overflowing
  case). The reporter only divides by the non-zero constant \<^verbatim>\<open>time.Millisecond.Nanoseconds()\<close>.
\<close>

definition int64_div :: "int64 \<Rightarrow> int64 \<Rightarrow> int64" where
  "int64_div a b = word_of_int (sint a sdiv sint b)"

definition Millisecond :: int64 where
  "Millisecond = 1000000"

definition Nanoseconds :: "int64 \<Rightarrow> int64" where
  "Nanoseconds d = d"

subsection \<open>Metric instruments\<close>

text \<open>
  An instrument is represented by what its methods return when the reporter reads them.
  \<open>Unrecognized\<close> stands for any registered value that matches no case of the type switch
  in \<^verbatim>\<open>send\<close> (a health check, an EWMA, a sample, ...).
\<close>

record 'f histogram =
  h_Count :: int64
  h_Max :: int64
  h_Mean :: 'f
  h_Min :: int64
  h_StdDev :: 'f
  h_Variance :: 'f
  h_Percentile :: "rat \<Rightarrow> 'f"

record 'f meter =
  m_Count :: int64
  m_Rate1 :: 'f
  m_Rate5 :: 'f
  m_Rate15 :: 'f
  m_RateMean :: 'f

record 'f timer =
  t_Count :: int64
  t_Max :: int64
  t_Mean :: 'f
  t_Min :: int64
  t_StdDev :: 'f
  t_Variance :: 'f
  t_Percentile :: "rat \<Rightarrow> 'f"
  t_Rate1 :: 'f
  t_Rate5 :: 'f
  t_Rate15 :: 'f
  t_RateMean :: 'f

datatype 'f instrument =
    Counter int64
  | Gauge int64
  | GaugeFloat64 'f
  | Histogram "'f histogram"
  | Meter "'f meter"
  | Timer "'f timer"
  | Unrecognized

text \<open>\<^verbatim>\<open>Percentiles(ps)\<close> answers one value per requested fraction, in order.\<close>

definition h_Percentiles :: "'f histogram \<Rightarrow> rat list \<Rightarrow> 'f list" where
  "h_Percentiles m ps = map (h_Percentile m) ps"

definition t_Percentiles :: "'f timer \<Rightarrow> rat list \<Rightarrow> 'f list" where
  "t_Percentiles m ps = map (t_Percentile m) ps"

text \<open>
  A registry is represented by the entries its \<^verbatim>\<open>Each\<close> visits, in visiting order, the k-th
  time it is called: the host process changes the registry between emissions.
\<close>

type_synonym 'f registry = "nat \<Rightarrow> (string \<times> 'f instrument) list"

subsection \<open>Points, batches, configuration\<close>

text \<open>A field value is an \<^verbatim>\<open>interface{}\<close> holding an \<^verbatim>\<open>int64\<close> or a \<^verbatim>\<open>float64\<close>.\<close>

datatype 'f field_value = Int64 int64 | Float64 'f

text \<open>
  \<^verbatim>\<open>client.Point\<close> and \<^verbatim>\<open>client.BatchPoints\<close>, with the fields the reporter sets. \<open>Fields\<close>
  lists the entries of the map literal in source order; its keys are distinct constants.
\<close>

record 'f Point =
  Measurement :: string
  Fields :: "(string \<times> 'f field_value) list"
  Time :: instant

record 'f BatchPoints =
  Points :: "'f Point list"
  Database :: string

record Config =
  URL :: url
  Username :: string
  Password :: string

record 'f reporter =
  reg :: "'f registry"
  interval :: int64
  tagHost :: bool
  url :: url
  database :: string
  username :: string
  password :: string
  client :: client_ptr

subsection \<open>The world\<close>

text \<open>A line of log output: the format string of \<^verbatim>\<open>log.Printf\<close> and its arguments.\<close>

type_synonym logline = "string \<times> string list"

record 'f world =
  parse_result :: "string \<Rightarrow> error + url"
  hostname_result :: "nat \<Rightarrow> error + string"
  hostname_calls :: nat
  clock :: "nat \<Rightarrow> instant"
  clock_reads :: nat
  each_calls :: nat
  new_client_result :: "nat \<Rightarrow> Config \<Rightarrow> client_ptr \<times> error option"
  new_client_calls :: "Config list"
  ping_result :: "nat \<Rightarrow> client_ptr \<Rightarrow> error option"
  ping_calls :: "client_ptr list"
  write_result :: "nat \<Rightarrow> client_ptr \<Rightarrow> 'f BatchPoints \<Rightarrow> error option"
  write_calls :: "(client_ptr \<times> 'f BatchPoints) list"
  log_output :: "logline list"

definition url_Parse :: "string \<Rightarrow> 'f world \<Rightarrow> error + url" where
  "url_Parse s w = parse_result w s"

definition os_Hostname :: "'f world \<Rightarrow> (error + string) \<times> 'f world" where
  "os_Hostname w =
     (hostname_result w (hostname_calls w), w\<lparr>hostname_calls := Suc (hostname_calls w)\<rparr>)"

definition time_Now :: "'f world \<Rightarrow> instant \<times> 'f world" where
  "time_Now w = (clock w (clock_reads w), w\<lparr>clock_reads := Suc (clock_reads w)\<rparr>)"

definition client_NewClient :: "Config \<Rightarrow> 'f world \<Rightarrow> (client_ptr \<times> error option) \<times> 'f world" where
  "client_NewClient c w =
     (new_client_result w (length (new_client_calls w)) c,
      w\<lparr>new_client_calls := new_client_calls w @ [c]\<rparr>)"

definition client_Ping :: "client_ptr \<Rightarrow> 'f world \<Rightarrow> error option \<times> 'f world" where
  "client_Ping c w =
     (ping_result w (length (ping_calls w)) c, w\<lparr>ping_calls := ping_calls w @ [c]\<rparr>)"

definition client_Write :: "client_ptr \<Rightarrow> 'f BatchPoints \<Rightarrow> 'f world \<Rightarrow> error option \<times> 'f world" where
  "client_Write c bps w =
     (write_result w (length (write_calls w)) c bps,
      w\<lparr>write_calls := write_calls w @ [(c, bps)]\<rparr>)"

definition log_Printf :: "string \<Rightarrow> string list \<Rightarrow> 'f world \<Rightarrow> 'f world" where
  "log_Printf fmt args w = w\<lparr>log_output := log_output w @ [(fmt, args)]\<rparr>"

section \<open>The reporter\<close>

subsection \<open>\<^verbatim>\<open>send\<close>: the callback given to \<^verbatim>\<open>Each\<close>\<close>

definition percentile_fractions :: "rat list" where
  "percentile_fractions = [5 / 10, 75 / 100, 95 / 100, 99 / 100, 999 / 1000, 9999 / 10000]"

text \<open>
  The type switch in the body of the closure: by the kind of the instrument it appends at
  most one point to \<open>pts\<close>. It reads the prefixed name and the clock reading \<open>now\<close>.
\<close>

definition type_switch ::
  "'f float64_ops \<Rightarrow> string \<Rightarrow> instant \<Rightarrow> 'f instrument \<Rightarrow> 'f Point list \<Rightarrow> 'f Point list" where
  "type_switch ops name now i pts =
     (case i of
        Counter c \<Rightarrow>
          pts @ [\<lparr>Measurement = name @ ''.count'',
                   Fields = [(''value'', Int64 c)],
                   Time = now\<rparr>]
      | Gauge v \<Rightarrow>
          pts @ [\<lparr>Measurement = name @ ''.gauge'',
                   Fields = [(''value'', Int64 v)],
                   Time = now\<rparr>]
      | GaugeFloat64 v \<Rightarrow>
          pts @ [\<lparr>Measurement = name @ ''.gauge'',
                   Fields = [(''value'', Float64 v)],
                   Time = now\<rparr>]
      | Histogram m \<Rightarrow>
          (let ps = h_Percentiles m percentile_fractions in
           pts @ [\<lparr>Measurement = name @ ''.histogram'',
                    Fields = [(''count'', Int64 (h_Count m)),
                              (''max'', Int64 (h_Max m)),
                              (''mean'', Float64 (h_Mean m)),
                              (''min'', Int64 (h_Min m)),
                              (''stddev'', Float64 (h_StdDev m)),
                              (''variance'', Float64 (h_Variance m)),
                              (''p50'', Float64 (ps ! 0)),
                              (''p75'', Float64 (ps ! 1)),
                              (''p95'', Float64 (ps ! 2)),
                              (''p99'', Float64 (ps ! 3)),
                              (''p999'', Float64 (ps ! 4)),
                              (''p9999'', Float64 (ps ! 5))],
                    Time = now\<rparr>])
      | Meter m \<Rightarrow>
          pts @ [\<lparr>Measurement = name @ ''.meter'',
                   Fields = [(''count'', Int64 (m_Count m)),
                             (''m1'', Float64 (m_Rate1 m)),
                             (''m5'', Float64 (m_Rate5 m)),
                             (''m15'', Float64 (m_Rate15 m)),
                             (''mean'', Float64 (m_RateMean m))],
                   Time = now\<rparr>]
      | Timer m \<Rightarrow>
          (let ps = t_Percentiles m percentile_fractions in
           pts @ [\<lparr>Measurement = name @ ''.timer'',
                    Fields = [(''count'', Int64 (t_Count m)),
                              (''max'', Int64 (int64_div (t_Max m) (Nanoseconds Millisecond))),
                              (''mean'', Float64 (fdiv ops (t_Mean m) (float64 ops (Nanoseconds Millisecond)))),
                              (''min'', Int64 (int64_div (t_Min m) (Nanoseconds Millisecond))),
                              (''stddev'', Float64 (fdiv ops (t_StdDev m) (float64 ops (Nanoseconds Millisecond)))),
                              (''variance'', Float64 (fdiv ops (t_Variance m) (float64 ops (Nanoseconds Millisecond)))),
                              (''p50'', Float64 (fdiv ops (ps ! 0) (float64 ops (Nanoseconds Millisecond)))),
                              (''p75'', Float64 (fdiv ops (ps ! 1) (float64 ops (Nanoseconds Millisecond)))),
                              (''p95'', Float64 (fdiv ops (ps ! 2) (float64 ops (Nanoseconds Millisecond)))),
                              (''p99'', Float64 (fdiv ops (ps ! 3) (float64 ops (Nanoseconds Millisecond)))),
                              (''p999'', Float64 (fdiv ops (ps ! 4) (float64 ops (Nanoseconds Millisecond)))),
                              (''p9999'', Float64 (fdiv ops (ps ! 5) (float64 ops (Nanoseconds Millisecond)))),
                              (''m1'', Float64 (t_Rate1 m)),
                              (''m5'', Float64 (t_Rate5 m)),
                              (''m15'', Float64 (t_Rate15 m)),
                              (''meanrate'', Float64 (t_RateMean m))],
                    Time = now\<rparr>])
      | Unrecognized \<Rightarrow> pts)"

text \<open>
  The closure given to \<^verbatim>\<open>Each\<close>: it reads the clock, prefixes the name with \<open>host\<close> and runs
  the type switch. It is called with the state of \<open>pts\<close> and of the world, and answers both.
\<close>

definition each_callback ::
  "'f float64_ops \<Rightarrow> string \<Rightarrow> string \<times> 'f instrument \<Rightarrow>
   'f Point list \<times> 'f world \<Rightarrow> 'f Point list \<times> 'f world" where
  "each_callback ops host entry acc =
     (case entry of (name0, i) \<Rightarrow>
      case acc of (pts, w) \<Rightarrow>
      case time_Now w of (now, w') \<Rightarrow>
      let name = host @ name0 in
      (type_switch ops name now i pts, w'))"

text \<open>\<^verbatim>\<open>r.reg.Each(f)\<close>: the callback runs once for every entry, in visiting order.\<close>

definition Each ::
  "'f registry \<Rightarrow> (string \<times> 'f instrument \<Rightarrow> 'a \<times> 'f world \<Rightarrow> 'a \<times> 'f world) \<Rightarrow>
   'a \<times> 'f world \<Rightarrow> 'a \<times> 'f world" where
  "Each r f acc =
     (case acc of (a, w) \<Rightarrow>
        fold f (r (each_calls w)) (a, w\<lparr>each_calls := Suc (each_calls w)\<rparr>))"

subsection \<open>\<^verbatim>\<open>send\<close>\<close>

definition send :: "'f float64_ops \<Rightarrow> 'f reporter \<Rightarrow> 'f world \<Rightarrow> error option \<times> 'f world" where
  "send ops r w =
     (case (if tagHost r
            then (case os_Hostname w of
                    (Inl err, w1) \<Rightarrow> Inl (err, w1)
                  | (Inr hostName, w1) \<Rightarrow> Inr (hostName @ ''.'', w1))
            else Inr ('''', w)) of
        Inl (err, w1) \<Rightarrow> (Some err, w1)
      | Inr (host, w1) \<Rightarrow>
          (case Each (reg r) (each_callback ops host) ([], w1) of (pts, w2) \<Rightarrow>
             let bps = \<lparr>Points = pts, Database = database r\<rparr> in
             client_Write (client r) bps w2))"

subsection \<open>\<^verbatim>\<open>makeClient\<close>, \<^verbatim>\<open>run\<close> and \<^verbatim>\<open>InfluxDB\<close>\<close>

definition makeClient :: "'f reporter \<Rightarrow> 'f world \<Rightarrow> (error option \<times> 'f reporter) \<times> 'f world" where
  "makeClient r w =
     (case client_NewClient \<lparr>URL = url r, Username = username r, Password = password r\<rparr> w of
        ((c, err), w') \<Rightarrow> ((err, r\<lparr>client := c\<rparr>), w'))"

text \<open>
  The two channels of the \<^verbatim>\<open>select\<close>. Which channel delivers next is decided by the two
  tickers of the runtime (one of period \<open>interval\<close>, one of five seconds), so the sequence
  of deliveries is an input. The loop of \<^verbatim>\<open>run\<close> has no exit; the model runs it on the ticks
  delivered so far, a finite prefix of what the two tickers deliver, and answers the state
  in which the loop waits for the next tick.
\<close>

datatype tick = intervalTicker | pingTicker

definition on_intervalTicker :: "'f float64_ops \<Rightarrow> 'f reporter \<Rightarrow> 'f world \<Rightarrow> 'f world" where
  "on_intervalTicker ops r w =
     (case send ops r w of
        (Some err, w') \<Rightarrow> log_Printf ''unable to send metrics to InfluxDB. err=%v'' [err] w'
      | (None, w') \<Rightarrow> w')"

definition on_pingTicker :: "'f reporter \<Rightarrow> 'f world \<Rightarrow> 'f reporter \<times> 'f world" where
  "on_pingTicker r w =
     (case client_Ping (client r) w of
        (Some err, w1) \<Rightarrow>
          (let w2 = log_Printf
                 ''got error while sending a ping to InfluxDB, trying to recreate client. err=%v''
                 [err] w1
           in case makeClient r w2 of
                ((Some err', r'), w3) \<Rightarrow>
                  (r', log_Printf ''unable to make InfluxDB client. err=%v'' [err'] w3)
              | ((None, r'), w3) \<Rightarrow> (r', w3))
      | (None, w1) \<Rightarrow> (r, w1))"

fun run :: "'f float64_ops \<Rightarrow> tick list \<Rightarrow> 'f reporter \<Rightarrow> 'f world \<Rightarrow> 'f reporter \<times> 'f world" where
  "run ops [] r w = (r, w)"
| "run ops (intervalTicker # ts) r w = run ops ts r (on_intervalTicker ops r w)"
| "run ops (pingTicker # ts) r w = (case on_pingTicker r w of (r', w') \<Rightarrow> run ops ts r' w')"

text \<open>
  \<^verbatim>\<open>InfluxDB\<close> either returns during startup (\<open>Returned\<close>) or enters the loop of \<^verbatim>\<open>run\<close> and
  never returns: \<open>Looping\<close> holds the reporter as it is after the ticks delivered so far.
\<close>

datatype 'f outcome = Returned | Looping "'f reporter"

definition InfluxDB ::
  "'f float64_ops \<Rightarrow> 'f registry \<Rightarrow> int64 \<Rightarrow> string \<Rightarrow> string \<Rightarrow> string \<Rightarrow> string \<Rightarrow> bool \<Rightarrow>
   tick list \<Rightarrow> 'f world \<Rightarrow> 'f outcome \<times> 'f world" where
  "InfluxDB ops r d url_text db user pw th ticks w =
     (case url_Parse url_text w of
        Inl err \<Rightarrow>
          (Returned, log_Printf ''unable to parse InfluxDB url %s. err=%v'' [url_text, err] w)
      | Inr u \<Rightarrow>
          (let rep = \<lparr>reg = r, interval = d, tagHost = th, url = u, database = db,
                      username = user, password = pw, client = None\<rparr>
           in case makeClient rep w of
                ((Some err, rep'), w') \<Rightarrow>
                  (Returned, log_Printf ''unable to make InfluxDB client. err=%v'' [err] w')
              | ((None, rep'), w') \<Rightarrow>
                  (case run ops ticks rep' w' of (rep'', w'') \<Rightarrow> (Looping rep'', w''))))"

section \<open>Notions used in the statements\<close>

text \<open>The kinds that have a case in the type switch of \<^verbatim>\<open>send\<close>.\<close>

definition recognized :: "'f instrument \<Rightarrow> bool" where
  "recognized i = (case i of Unrecognized \<Rightarrow> False | _ \<Rightarrow> True)"

text \<open>
  The table of section 4.2 of the specification, in its own words: the fixed suffix of
  every kind and the keys of its fields. An unrecognized kind has no row in the table.
\<close>

definition spec_suffix :: "'f instrument \<Rightarrow> string" where
  "spec_suffix i =
     (case i of
        Counter _ \<Rightarrow> ''.count''
      | Gauge _ \<Rightarrow> ''.gauge''
      | GaugeFloat64 _ \<Rightarrow> ''.gauge''
      | Histogram _ \<Rightarrow> ''.histogram''
      | Meter _ \<Rightarrow> ''.meter''
      | Timer _ \<Rightarrow> ''.timer''
      | Unrecognized \<Rightarrow> [])"

definition spec_statistics :: "string list" where
  "spec_statistics =
     [''count'', ''max'', ''mean'', ''min'', ''stddev'', ''variance'',
      ''p50'', ''p75'', ''p95'', ''p99'', ''p999'', ''p9999'']"

definition spec_field_keys :: "'f instrument \<Rightarrow> string list" where
  "spec_field_keys i =
     (case i of
        Counter _ \<Rightarrow> [''value'']
      | Gauge _ \<Rightarrow> [''value'']
      | GaugeFloat64 _ \<Rightarrow> [''value'']
      | Histogram _ \<Rightarrow> spec_statistics
      | Meter _ \<Rightarrow> [''count'', ''m1'', ''m5'', ''m15'', ''mean'']
      | Timer _ \<Rightarrow> spec_statistics @ [''m1'', ''m5'', ''m15'', ''meanrate'']
      | Unrecognized \<Rightarrow> [])"

text \<open>
  The points that one pass over the entries \<open>es\<close> builds when the clock has been read \<open>c0\<close>
  times before: the entry visited as number \<open>k\<close> gets the clock reading number \<open>k\<close>.
\<close>

definition points_of ::
  "'f float64_ops \<Rightarrow> string \<Rightarrow> (nat \<Rightarrow> instant) \<Rightarrow> nat \<Rightarrow> (string \<times> 'f instrument) list \<Rightarrow>
   'f Point list" where
  "points_of ops host clk c0 es =
     concat (map (\<lambda>(k, (n, i)). type_switch ops (host @ n) (clk k) i []) (enumerate c0 es))"

text \<open>The configuration that \<^verbatim>\<open>makeClient\<close> passes to \<^verbatim>\<open>client.NewClient\<close>.\<close>

definition stored_config :: "'f reporter \<Rightarrow> Config" where
  "stored_config r = \<lparr>URL = url r, Username = username r, Password = password r\<rparr>"

definition ping_failed_line :: "error \<Rightarrow> logline" where
  "ping_failed_line err =
     (''got error while sending a ping to InfluxDB, trying to recreate client. err=%v'', [err])"

definition make_failed_line :: "error \<Rightarrow> logline" where
  "make_failed_line err = (''unable to make InfluxDB client. err=%v'', [err])"

definition send_failed_line :: "error \<Rightarrow> logline" where
  "send_failed_line err = (''unable to send metrics to InfluxDB. err=%v'', [err])"

definition parse_failed_line :: "string \<Rightarrow> error \<Rightarrow> logline" where
  "parse_failed_line url_text err = (''unable to parse InfluxDB url %s. err=%v'', [url_text, err])"

subsection \<open>Concrete inputs\<close>

text \<open>
  To run the model on concrete inputs, \<^verbatim>\<open>float64\<close> is instantiated by the real numbers with
  exact division. The float values used below (0.5, 1.5, 2.5 and whole numbers up to a few
  millions) and their quotients by 1000000 are numbers that \<^verbatim>\<open>float64\<close> represents
  exactly, so IEEE division gives the same results on them.
\<close>

definition real_ops :: "real float64_ops" where
  "real_ops = \<lparr>fdiv = (/), float64 = (\<lambda>x. real_of_int (sint x))\<rparr>"

text \<open>
  A world in which every collaborator answers without error: the host is called
  \<^verbatim>\<open>web1\<close>, the k-th clock reading is \<open>1000 + k\<close>, the k-th client built is \<open>Some k\<close>.
\<close>

definition quiet_world :: "real world" where
  "quiet_world =
     \<lparr>parse_result = (\<lambda>s. Inr (Parsed s)),
      hostname_result = (\<lambda>k. Inr ''web1''),
      hostname_calls = 0,
      clock = (\<lambda>k. 1000 + int k),
      clock_reads = 0,
      each_calls = 0,
      new_client_result = (\<lambda>k c. (Some k, None)),
      new_client_calls = [],
      ping_result = (\<lambda>k c. None),
      ping_calls = [],
      write_result = (\<lambda>k c b. None),
      write_calls = [],
      log_output = []\<rparr>"

text \<open>The same world when the host name cannot be resolved.\<close>

definition nameless_world :: "real world" where
  "nameless_world = quiet_world\<lparr>hostname_result := (\<lambda>k. Inl ''hostname: lookup failed'')\<rparr>"

text \<open>The same world when the first two pings fail and the third succeeds.\<close>

definition outage_world :: "real world" where
  "outage_world =
     quiet_world\<lparr>ping_result := (\<lambda>k c. if k < 2 then Some ''connection refused'' else None)\<rparr>"

text \<open>The same world when the URL parser rejects every text.\<close>

definition unparsable_world :: "real world" where
  "unparsable_world = quiet_world\<lparr>parse_result := (\<lambda>s. Inl ''missing protocol scheme'')\<rparr>"

text \<open>The same world when no client can be built.\<close>

definition clientless_world :: "real world" where
  "clientless_world = quiet_world\<lparr>new_client_result := (\<lambda>k c. (None, Some ''no client''))\<rparr>"

text \<open>A reporter on a given registry, with a client in place.\<close>

definition reporter_on :: "real registry \<Rightarrow> bool \<Rightarrow> real reporter" where
  "reporter_on r th =
     \<lparr>reg = r, interval = 10000000000, tagHost = th, url = Parsed ''http://localhost:8086'',
      database = ''metrics'', username = ''admin'', password = ''secret'', client = Some 0\<rparr>"

definition empty_registry :: "real registry" where
  "empty_registry = (\<lambda>k. [])"

definition requests_registry :: "real registry" where
  "requests_registry = (\<lambda>k. [(''requests'', Counter 42)])"

definition two_counters_registry :: "real registry" where
  "two_counters_registry = (\<lambda>k. [(''hits'', Counter 1), (''misses'', Counter 2)])"

definition latency_percentile :: "rat \<Rightarrow> real" where
  "latency_percentile q = 3000000"

definition latency_timer :: "real timer" where
  "latency_timer =
     \<lparr>t_Count = 10, t_Max = 5000000, t_Mean = 2500000, t_Min = 1000000,
      t_StdDev = 1500000, t_Variance = 2000000, t_Percentile = latency_percentile,
      t_Rate1 = 1 / 2, t_Rate5 = 1 / 2, t_Rate15 = 1 / 2, t_RateMean = 1 / 2\<rparr>"

text \<open>A timer whose largest sample is one and a half milliseconds, as is its mean.\<close>

definition short_timer :: "real timer" where
  "short_timer = latency_timer\<lparr>t_Max := 1500000, t_Mean := 1500000, t_Min := 999999\<rparr>"

text \<open>A timer that was updated with a negative duration of three milliseconds.\<close>

definition negative_timer :: "real timer" where
  "negative_timer = latency_timer\<lparr>t_Min := - 3000000\<rparr>"

definition sample_histogram :: "real histogram" where
  "sample_histogram =
     \<lparr>h_Count = 3, h_Max = 9, h_Mean = 5, h_Min = 1, h_StdDev = 2, h_Variance = 4,
      h_Percentile = (\<lambda>q. 7)\<rparr>"

definition sample_meter :: "real meter" where
  "sample_meter = \<lparr>m_Count = 8, m_Rate1 = 1, m_Rate5 = 2, m_Rate15 = 3, m_RateMean = 4\<rparr>"

text \<open>Five instruments of recognized kinds and, in the third place, one of no recognized kind.\<close>

definition mixed_registry :: "real registry" where
  "mixed_registry =
     (\<lambda>k. [(''requests'', Counter 42),
           (''workers'', Gauge 7),
           (''health'', Unrecognized),
           (''sizes'', Histogram sample_histogram),
           (''events'', Meter sample_meter),
           (''latency'', Timer latency_timer)])"

definition latency_registry :: "real registry" where
  "latency_registry = (\<lambda>k. [(''latency'', Timer latency_timer)])"

text \<open>The same world when every write is refused.\<close>

definition refusing_world :: "real world" where
  "refusing_world = quiet_world\<lparr>write_result := (\<lambda>k c b. Some ''write refused'')\<rparr>"

text \<open>The world of the outage when, in addition, no client can be built.\<close>

definition cut_off_world :: "real world" where
  "cut_off_world = outage_world\<lparr>new_client_result := (\<lambda>k c. (None, Some ''no client''))\<rparr>"

section \<open>Auxiliary facts\<close>

subsection \<open>Division of \<^verbatim>\<open>int64\<close> by a million\<close>

lemma abs_sdiv_ms: "\<bar>(k::int) sdiv 1000000\<bar> = \<bar>k\<bar> div 1000000"
  by (cases "k = 0") (simp_all add: signed_divide_int_def abs_mult)

lemma sint_int64_div_ms: "sint (int64_div d 1000000) = sint d sdiv 1000000"
proof -
  have "- (2 ^ 63) \<le> sint d" "sint d < 2 ^ 63"
    using sint_ge [of d] sint_lt [of d] by simp_all
  then have "\<bar>sint d\<bar> \<le> 9223372036854775808" by simp
  then have "\<bar>sint d\<bar> div 1000000 \<le> 9223372036854775808 div 1000000"
    by (rule zdiv_mono1) simp
  then have "\<bar>sint d sdiv 1000000\<bar> \<le> 9223372036854"
    by (simp add: abs_sdiv_ms)
  then have "- (2 ^ 63) \<le> sint d sdiv 1000000" "sint d sdiv 1000000 < 2 ^ 63"
    by simp_all
  then have "signed_take_bit 63 (sint d sdiv 1000000) = sint d sdiv 1000000"
    by (simp add: signed_take_bit_int_eq_self)
  then show ?thesis
    by (simp add: int64_div_def sint_sbintrunc')
qed

lemma sdiv_ms_small: "\<bar>k::int\<bar> < 1000000 \<Longrightarrow> k sdiv 1000000 = 0"
  by (simp add: signed_divide_int_def)

lemma sdiv_ms_remainder: "\<bar>(k::int) - 1000000 * (k sdiv 1000000)\<bar> < 1000000"
proof (cases "0 \<le> k")
  case True
  then have "k sdiv 1000000 = k div 1000000"
    by (cases "k = 0") (simp_all add: signed_divide_int_def)
  then have "k - 1000000 * (k sdiv 1000000) = k mod 1000000"
    by (simp add: minus_mult_div_eq_mod)
  then show ?thesis by simp
next
  case False
  then have "k sdiv 1000000 = - ((- k) div 1000000)"
    by (simp add: signed_divide_int_def)
  then have "k - 1000000 * (k sdiv 1000000) = - ((- k) mod 1000000)"
    by (simp add: algebra_simps minus_mult_div_eq_mod [symmetric])
  then show ?thesis by simp
qed

lemma int64_div_ms_small: "\<bar>sint d\<bar> < 1000000 \<Longrightarrow> int64_div d 1000000 = 0"
  by (simp add: int64_div_def sdiv_ms_small)

lemma ms_nanoseconds: "Nanoseconds Millisecond = 1000000"
  by (simp add: Nanoseconds_def Millisecond_def)

subsection \<open>The type switch\<close>

lemma type_switch_append: "type_switch ops name now i pts = pts @ type_switch ops name now i []"
  by (cases i) (simp_all add: type_switch_def Let_def)

lemma type_switch_unrecognized: "\<not> recognized i \<Longrightarrow> type_switch ops name now i [] = []"
  by (cases i) (simp_all add: recognized_def type_switch_def)

lemma type_switch_recognized:
  assumes "recognized i"
  shows "\<exists>p. type_switch ops name now i [] = [p] \<and> Measurement p = name @ spec_suffix i \<and>
              map fst (Fields p) = spec_field_keys i \<and> Time p = now"
  using assms
  by (cases i)
    (simp_all add: recognized_def type_switch_def spec_suffix_def spec_field_keys_def
      spec_statistics_def Let_def)

lemma distinct_spec_field_keys: "distinct (spec_field_keys i)"
  by (cases i) (simp_all add: spec_field_keys_def spec_statistics_def)

lemma time_type_switch:
  "map Time (type_switch ops name now i []) = (if recognized i then [now] else [])"
  using type_switch_recognized [of i ops name now] type_switch_unrecognized [of i ops name now]
  by auto

lemma measurement_type_switch:
  "map Measurement (type_switch ops name now i []) =
     (if recognized i then [name @ spec_suffix i] else [])"
  using type_switch_recognized [of i ops name now] type_switch_unrecognized [of i ops name now]
  by auto

lemma fields_type_switch:
  "map Fields (type_switch ops name now i []) = map Fields (type_switch ops name' now' i [])"
  by (cases i) (simp_all add: type_switch_def Let_def)

subsection \<open>One pass over the registry\<close>

lemma each_callback_eq:
  "each_callback ops host (n, i) (pts, w) =
     (pts @ type_switch ops (host @ n) (clock w (clock_reads w)) i [],
      w\<lparr>clock_reads := Suc (clock_reads w)\<rparr>)"
  by (simp add: each_callback_def time_Now_def Let_def type_switch_append [symmetric])

lemma fold_each_callback:
  "fold (each_callback ops host) es (pts, w) =
     (pts @ points_of ops host (clock w) (clock_reads w) es,
      w\<lparr>clock_reads := clock_reads w + length es\<rparr>)"
proof (induction es arbitrary: pts w)
  case Nil
  show ?case by (simp add: points_of_def)
next
  case (Cons e es)
  obtain n i where e: "e = (n, i)" by (cases e)
  show ?case
    by (simp add: e each_callback_eq Cons.IH) (simp add: points_of_def)
qed

lemma points_of_Nil: "points_of ops host clk c0 [] = []"
  by (simp add: points_of_def)

lemma points_of_Cons:
  "points_of ops host clk c0 ((n, i) # es) =
     type_switch ops (host @ n) (clk c0) i [] @ points_of ops host clk (Suc c0) es"
  by (simp add: points_of_def)

lemma time_points_of:
  "map Time (points_of ops host clk c0 es) =
     map (\<lambda>(k, e). clk k) (filter (\<lambda>(k, e). recognized (snd e)) (enumerate c0 es))"
proof (induction es arbitrary: c0)
  case Nil
  show ?case by (simp add: points_of_Nil)
next
  case (Cons e es)
  obtain n i where e: "e = (n, i)" by (cases e)
  show ?case
    by (simp add: e points_of_Cons time_type_switch Cons.IH)
qed

lemma measurement_points_of:
  "map Measurement (points_of ops host clk c0 es) =
     map (\<lambda>(n, i). host @ n @ spec_suffix i) (filter (\<lambda>(n, i). recognized i) es)"
proof (induction es arbitrary: c0)
  case Nil
  show ?case by (simp add: points_of_Nil)
next
  case (Cons e es)
  obtain n i where e: "e = (n, i)" by (cases e)
  show ?case
    by (simp add: e points_of_Cons measurement_type_switch Cons.IH)
qed

lemma fields_points_of:
  "map Fields (points_of ops host clk c0 es) = map Fields (points_of ops host' clk' c0' es)"
proof (induction es arbitrary: c0 c0')
  case Nil
  show ?case by (simp add: points_of_Nil)
next
  case (Cons e es)
  obtain n i where e: "e = (n, i)" by (cases e)
  show ?case
    using Cons.IH [of "Suc c0" "Suc c0'"]
      fields_type_switch [of ops "host @ n" "clk c0" i "host' @ n" "clk' c0'"]
    by (simp add: e points_of_Cons)
qed

lemma time_points_of_host:
  "map Time (points_of ops host clk c0 es) = map Time (points_of ops host' clk c0 es)"
  by (simp add: time_points_of)

lemma length_points_of:
  "length (points_of ops host clk c0 es) = length (filter (\<lambda>(n, i). recognized i) es)"
  using arg_cong [OF measurement_points_of [of ops host clk c0 es], of length]
  by simp

subsection \<open>\<^verbatim>\<open>send\<close>\<close>

lemma send_untagged:
  assumes "\<not> tagHost r"
  shows "send ops r w =
     (write_result w (length (write_calls w)) (client r)
        \<lparr>Points = points_of ops [] (clock w) (clock_reads w) (reg r (each_calls w)),
         Database = database r\<rparr>,
      w\<lparr>clock_reads := clock_reads w + length (reg r (each_calls w)),
        each_calls := Suc (each_calls w),
        write_calls := write_calls w @
          [(client r,
            \<lparr>Points = points_of ops [] (clock w) (clock_reads w) (reg r (each_calls w)),
             Database = database r\<rparr>)]\<rparr>)"
  using assms
  by (simp add: send_def Each_def fold_each_callback client_Write_def Let_def)

lemma send_tagged:
  assumes "tagHost r" and "hostname_result w (hostname_calls w) = Inr h"
  shows "send ops r w =
     (write_result w (length (write_calls w)) (client r)
        \<lparr>Points = points_of ops (h @ ''.'') (clock w) (clock_reads w) (reg r (each_calls w)),
         Database = database r\<rparr>,
      w\<lparr>hostname_calls := Suc (hostname_calls w),
        clock_reads := clock_reads w + length (reg r (each_calls w)),
        each_calls := Suc (each_calls w),
        write_calls := write_calls w @
          [(client r,
            \<lparr>Points = points_of ops (h @ ''.'') (clock w) (clock_reads w) (reg r (each_calls w)),
             Database = database r\<rparr>)]\<rparr>)"
  using assms
  by (simp add: send_def os_Hostname_def Each_def fold_each_callback client_Write_def Let_def)

lemma send_hostname_error:
  assumes "tagHost r" and "hostname_result w (hostname_calls w) = Inl err"
  shows "send ops r w = (Some err, w\<lparr>hostname_calls := Suc (hostname_calls w)\<rparr>)"
  using assms by (simp add: send_def os_Hostname_def)

text \<open>
  When the host name is not asked for, or is resolved, \<^verbatim>\<open>send\<close> writes one batch: the points
  of one pass over the registry, under the prefix in force.
\<close>

lemma send_writes:
  assumes "tagHost r \<longrightarrow> hostname_result w (hostname_calls w) = Inr h"
  shows "write_calls (snd (send ops r w)) = write_calls w @
           [(client r,
             \<lparr>Points = points_of ops (if tagHost r then h @ ''.'' else []) (clock w)
                         (clock_reads w) (reg r (each_calls w)),
              Database = database r\<rparr>)]"
    and "fst (send ops r w) = write_result w (length (write_calls w)) (client r)
             \<lparr>Points = points_of ops (if tagHost r then h @ ''.'' else []) (clock w)
                         (clock_reads w) (reg r (each_calls w)),
              Database = database r\<rparr>"
  using assms
  by (cases "tagHost r"; simp add: send_untagged send_tagged)+

subsection \<open>The loop\<close>

lemma makeClient_eq:
  "makeClient r w =
     ((snd (new_client_result w (length (new_client_calls w)) (stored_config r)),
       r\<lparr>client := fst (new_client_result w (length (new_client_calls w)) (stored_config r))\<rparr>),
      w\<lparr>new_client_calls := new_client_calls w @ [stored_config r]\<rparr>)"
  by (simp add: makeClient_def client_NewClient_def stored_config_def split: prod.splits)

lemma ping_calls_on_intervalTicker: "ping_calls (on_intervalTicker ops r w) = ping_calls w"
proof (cases "tagHost r")
  case False
  then show ?thesis
    by (simp add: on_intervalTicker_def send_untagged log_Printf_def split: option.splits)
next
  case True
  show ?thesis
  proof (cases "hostname_result w (hostname_calls w)")
    case (Inl err)
    with True show ?thesis
      by (simp add: on_intervalTicker_def send_hostname_error log_Printf_def)
  next
    case (Inr h)
    with True show ?thesis
      by (simp add: on_intervalTicker_def send_tagged log_Printf_def split: option.splits)
  qed
qed

lemma ping_calls_on_pingTicker:
  "ping_calls (snd (on_pingTicker r w)) = ping_calls w @ [client r]"
  by (simp add: on_pingTicker_def client_Ping_def makeClient_eq log_Printf_def Let_def
      split: option.splits prod.splits)

lemma length_ping_calls_run:
  "length (ping_calls (snd (run ops ts r w))) = length (ping_calls w) + count_list ts pingTicker"
proof (induction ops ts r w rule: run.induct)
  case (1 ops r w)
  show ?case by simp
next
  case (2 ops ts r w)
  then show ?case by (simp add: ping_calls_on_intervalTicker)
next
  case (3 ops ts r w)
  obtain r' w' where s: "on_pingTicker r w = (r', w')" by (cases "on_pingTicker r w")
  with ping_calls_on_pingTicker [of r w] have "ping_calls w' = ping_calls w @ [client r]"
    by simp
  with 3 s show ?case by simp
qed

lemma send_counters:
  assumes "tagHost r \<longrightarrow> hostname_result w (hostname_calls w) = Inr h"
  shows "clock_reads (snd (send ops r w)) = clock_reads w + length (reg r (each_calls w))"
    and "each_calls (snd (send ops r w)) = Suc (each_calls w)"
    and "log_output (snd (send ops r w)) = log_output w"
  using assms
  by (cases "tagHost r"; simp add: send_untagged send_tagged)+


section \<open>The claims\<close>

subsection \<open>C1: the timestamps of a batch\<close>

text \<open>
  C1 as stated says that all points of a batch carry one capture timestamp, taken once
  at the start of the emission. \<^verbatim>\<open>send\<close> calls \<^verbatim>\<open>time.Now()\<close> inside the closure given to
  \<^verbatim>\<open>Each\<close>, once per registry entry. With two counters and a clock that advances between
  two readings, the one batch written holds two points with the timestamps 1000 and 1001.
\<close>

theorem C1_timestamps_differ_counterexample:
  "map (map Time \<circ> Points \<circ> snd)
     (write_calls (snd (send real_ops (reporter_on two_counters_registry False) quiet_world))) =
   [[1000, 1001]]"
  by (simp add: send_untagged reporter_on_def quiet_world_def two_counters_registry_def
      points_of_def type_switch_def)

text \<open>
  C1, amended: in an emission that is not aborted, the clock is read once for every
  registry entry, when the entry is visited, and the point built for an entry carries
  the reading taken at that visit: the entry visited as number \<open>j\<close> gets reading number
  \<open>clock_reads w + j\<close>. The points of a batch share a timestamp only where these readings
  coincide.
\<close>

theorem C1_timestamp_per_entry:
  assumes "tagHost r \<longrightarrow> hostname_result w (hostname_calls w) = Inr h"
  shows "\<exists>pts. write_calls (snd (send ops r w)) =
                 write_calls w @ [(client r, \<lparr>Points = pts, Database = database r\<rparr>)] \<and>
               map Time pts =
                 map (\<lambda>(k, e). clock w k)
                   (filter (\<lambda>(k, e). recognized (snd e))
                      (enumerate (clock_reads w) (reg r (each_calls w)))) \<and>
               clock_reads (snd (send ops r w)) =
                 clock_reads w + length (reg r (each_calls w))"
  using send_writes(1) [OF assms, of ops] send_counters(1) [OF assms, of ops]
  by (simp add: time_points_of)

text \<open>
  C1, amended, on the registry of six entries with host tagging: six readings are taken,
  and the five points carry the readings of their own entries.
\<close>

theorem C1_timestamp_per_entry_witness:
  "\<exists>pts. write_calls (snd (send real_ops (reporter_on mixed_registry True) quiet_world)) =
           [(Some 0, \<lparr>Points = pts, Database = ''metrics''\<rparr>)] \<and>
         map Time pts = [1000, 1001, 1003, 1004, 1005] \<and>
         clock_reads (snd (send real_ops (reporter_on mixed_registry True) quiet_world)) = 6"
  using C1_timestamp_per_entry
    [of "reporter_on mixed_registry True" quiet_world "''web1''" real_ops]
  by (simp add: reporter_on_def quiet_world_def mixed_registry_def recognized_def
      eval_nat_numeral)

subsection \<open>C2: the fields of a timer\<close>

text \<open>
  C2: the point built for a timer holds every duration statistic divided by 1000000, by
  the division of the statistic's own type (\<^verbatim>\<open>int64\<close> for \<open>max\<close> and \<open>min\<close>, \<^verbatim>\<open>float64\<close> for the
  others), and holds the four rates and the count as the timer reports them. For the timer
  \<^verbatim>\<open>latency\<close> with min 1000000 ns, max 5000000 ns, mean 2500000 ns and one-minute rate 0.5,
  the fields are min = 1, max = 5, mean = 2.5 and m1 = 0.5.
\<close>

theorem C2_timer_fields:
  "(\<exists>p. each_callback ops host (name, Timer t) (pts, w) =
          (pts @ [p], w\<lparr>clock_reads := Suc (clock_reads w)\<rparr>) \<and>
        map_of (Fields p) ''max'' = Some (Int64 (int64_div (t_Max t) 1000000)) \<and>
        map_of (Fields p) ''mean'' = Some (Float64 (fdiv ops (t_Mean t) (float64 ops 1000000))) \<and>
        map_of (Fields p) ''min'' = Some (Int64 (int64_div (t_Min t) 1000000)) \<and>
        map_of (Fields p) ''stddev'' =
          Some (Float64 (fdiv ops (t_StdDev t) (float64 ops 1000000))) \<and>
        map_of (Fields p) ''variance'' =
          Some (Float64 (fdiv ops (t_Variance t) (float64 ops 1000000))) \<and>
        map_of (Fields p) ''p50'' =
          Some (Float64 (fdiv ops (t_Percentile t (5 / 10)) (float64 ops 1000000))) \<and>
        map_of (Fields p) ''p75'' =
          Some (Float64 (fdiv ops (t_Percentile t (75 / 100)) (float64 ops 1000000))) \<and>
        map_of (Fields p) ''p95'' =
          Some (Float64 (fdiv ops (t_Percentile t (95 / 100)) (float64 ops 1000000))) \<and>
        map_of (Fields p) ''p99'' =
          Some (Float64 (fdiv ops (t_Percentile t (99 / 100)) (float64 ops 1000000))) \<and>
        map_of (Fields p) ''p999'' =
          Some (Float64 (fdiv ops (t_Percentile t (999 / 1000)) (float64 ops 1000000))) \<and>
        map_of (Fields p) ''p9999'' =
          Some (Float64 (fdiv ops (t_Percentile t (9999 / 10000)) (float64 ops 1000000))) \<and>
        map_of (Fields p) ''m1'' = Some (Float64 (t_Rate1 t)) \<and>
        map_of (Fields p) ''m5'' = Some (Float64 (t_Rate5 t)) \<and>
        map_of (Fields p) ''m15'' = Some (Float64 (t_Rate15 t)) \<and>
        map_of (Fields p) ''meanrate'' = Some (Float64 (t_RateMean t)) \<and>
        map_of (Fields p) ''count'' = Some (Int64 (t_Count t))) \<and>
   map (map_of (Fields (hd (fst (each_callback real_ops []
          (''latency'', Timer latency_timer) ([], quiet_world))))))
     [''min'', ''max'', ''mean'', ''m1''] =
   [Some (Int64 1), Some (Int64 5), Some (Float64 (5 / 2)), Some (Float64 (1 / 2))]"
proof
  show "\<exists>p. each_callback ops host (name, Timer t) (pts, w) =
          (pts @ [p], w\<lparr>clock_reads := Suc (clock_reads w)\<rparr>) \<and>
        map_of (Fields p) ''max'' = Some (Int64 (int64_div (t_Max t) 1000000)) \<and>
        map_of (Fields p) ''mean'' = Some (Float64 (fdiv ops (t_Mean t) (float64 ops 1000000))) \<and>
        map_of (Fields p) ''min'' = Some (Int64 (int64_div (t_Min t) 1000000)) \<and>
        map_of (Fields p) ''stddev'' =
          Some (Float64 (fdiv ops (t_StdDev t) (float64 ops 1000000))) \<and>
        map_of (Fields p) ''variance'' =
          Some (Float64 (fdiv ops (t_Variance t) (float64 ops 1000000))) \<and>
        map_of (Fields p) ''p50'' =
          Some (Float64 (fdiv ops (t_Percentile t (5 / 10)) (float64 ops 1000000))) \<and>
        map_of (Fields p) ''p75'' =
          Some (Float64 (fdiv ops (t_Percentile t (75 / 100)) (float64 ops 1000000))) \<and>
        map_of (Fields p) ''p95'' =
          Some (Float64 (fdiv ops (t_Percentile t (95 / 100)) (float64 ops 1000000))) \<and>
        map_of (Fields p) ''p99'' =
          Some (Float64 (fdiv ops (t_Percentile t (99 / 100)) (float64 ops 1000000))) \<and>
        map_of (Fields p) ''p999'' =
          Some (Float64 (fdiv ops (t_Percentile t (999 / 1000)) (float64 ops 1000000))) \<and>
        map_of (Fields p) ''p9999'' =
          Some (Float64 (fdiv ops (t_Percentile t (9999 / 10000)) (float64 ops 1000000))) \<and>
        map_of (Fields p) ''m1'' = Some (Float64 (t_Rate1 t)) \<and>
        map_of (Fields p) ''m5'' = Some (Float64 (t_Rate5 t)) \<and>
        map_of (Fields p) ''m15'' = Some (Float64 (t_Rate15 t)) \<and>
        map_of (Fields p) ''meanrate'' = Some (Float64 (t_RateMean t)) \<and>
        map_of (Fields p) ''count'' = Some (Int64 (t_Count t))"
    by (simp add: each_callback_eq type_switch_def Let_def ms_nanoseconds t_Percentiles_def
        percentile_fractions_def)
next
  show "map (map_of (Fields (hd (fst (each_callback real_ops []
          (''latency'', Timer latency_timer) ([], quiet_world))))))
     [''min'', ''max'', ''mean'', ''m1''] =
   [Some (Int64 1), Some (Int64 5), Some (Float64 (5 / 2)), Some (Float64 (1 / 2))]"
    by (simp add: each_callback_eq type_switch_def Let_def ms_nanoseconds real_ops_def
        latency_timer_def int64_div_def signed_divide_int_def)
qed

subsection \<open>C3: one point per instrument, by the table\<close>

text \<open>
  C3: when the registry holds one instrument of a recognized kind and the emission is
  not aborted, \<^verbatim>\<open>send\<close> writes one batch with exactly one point; its measurement name is
  the prefix, the name of the instrument and the suffix that the table gives for the
  kind, and the keys of its fields are exactly the keys that the table gives, each once.
  For one counter \<^verbatim>\<open>requests\<close> with count 42 and no host tagging, the batch is the one
  point \<^verbatim>\<open>requests.count\<close> with the one field \<open>value = 42\<close>.
\<close>

theorem C3_one_point_per_kind:
  "(reg r (each_calls w) = [(name, i)] \<and> recognized i \<and>
    (tagHost r \<longrightarrow> hostname_result w (hostname_calls w) = Inr h) \<longrightarrow>
    (\<exists>p. write_calls (snd (send ops r w)) =
            write_calls w @ [(client r, \<lparr>Points = [p], Database = database r\<rparr>)] \<and>
          Measurement p = (if tagHost r then h @ ''.'' else []) @ name @ spec_suffix i \<and>
          set (map fst (Fields p)) = set (spec_field_keys i) \<and>
          distinct (map fst (Fields p)))) \<and>
   write_calls (snd (send real_ops (reporter_on requests_registry False) quiet_world)) =
     [(Some 0,
       \<lparr>Points = [\<lparr>Measurement = ''requests.count'', Fields = [(''value'', Int64 42)],
                   Time = 1000\<rparr>],
        Database = ''metrics''\<rparr>)]"
proof (intro conjI impI)
  assume a: "reg r (each_calls w) = [(name, i)] \<and> recognized i \<and>
    (tagHost r \<longrightarrow> hostname_result w (hostname_calls w) = Inr h)"
  define pre where "pre = (if tagHost r then h @ ''.'' else [])"
  from a have rec: "recognized i" and es: "reg r (each_calls w) = [(name, i)]"
    and host: "tagHost r \<longrightarrow> hostname_result w (hostname_calls w) = Inr h"
    by simp_all
  obtain p where p: "type_switch ops (pre @ name) (clock w (clock_reads w)) i [] = [p]"
      "Measurement p = (pre @ name) @ spec_suffix i" "map fst (Fields p) = spec_field_keys i"
    using type_switch_recognized [OF rec] by blast
  have "write_calls (snd (send ops r w)) =
          write_calls w @ [(client r, \<lparr>Points = [p], Database = database r\<rparr>)]"
    using send_writes(1) [OF host, of ops] p(1)
    by (simp add: es points_of_Cons points_of_Nil pre_def)
  moreover have "Measurement p = pre @ name @ spec_suffix i"
    using p(2) by simp
  moreover have "set (map fst (Fields p)) = set (spec_field_keys i)"
    using p(3) by simp
  moreover have "distinct (map fst (Fields p))"
    using p(3) distinct_spec_field_keys [of i] by simp
  ultimately show "\<exists>p. write_calls (snd (send ops r w)) =
            write_calls w @ [(client r, \<lparr>Points = [p], Database = database r\<rparr>)] \<and>
          Measurement p = (if tagHost r then h @ ''.'' else []) @ name @ spec_suffix i \<and>
          set (map fst (Fields p)) = set (spec_field_keys i) \<and>
          distinct (map fst (Fields p))"
    unfolding pre_def by blast
next
  show "write_calls (snd (send real_ops (reporter_on requests_registry False) quiet_world)) =
     [(Some 0,
       \<lparr>Points = [\<lparr>Measurement = ''requests.count'', Fields = [(''value'', Int64 42)],
                   Time = 1000\<rparr>],
        Database = ''metrics''\<rparr>)]"
    by (simp add: send_untagged reporter_on_def quiet_world_def requests_registry_def
        points_of_def type_switch_def)
qed

text \<open>
  C3 on a registry that holds the timer \<^verbatim>\<open>latency\<close> alone, with host tagging: one point,
  \<^verbatim>\<open>web1.latency.timer\<close>, with the sixteen keys of the table.
\<close>

theorem C3_one_point_per_kind_witness:
  "\<exists>p. write_calls (snd (send real_ops (reporter_on latency_registry True) quiet_world)) =
         [(Some 0, \<lparr>Points = [p], Database = ''metrics''\<rparr>)] \<and>
       Measurement p = ''web1.latency.timer'' \<and>
       set (map fst (Fields p)) =
         {''count'', ''max'', ''mean'', ''min'', ''stddev'', ''variance'', ''p50'', ''p75'',
          ''p95'', ''p99'', ''p999'', ''p9999'', ''m1'', ''m5'', ''m15'', ''meanrate''} \<and>
       distinct (map fst (Fields p))"
proof -
  have "reg (reporter_on latency_registry True) (each_calls quiet_world) =
          [(''latency'', Timer latency_timer)] \<and>
        recognized (Timer latency_timer :: real instrument) \<and>
        (tagHost (reporter_on latency_registry True) \<longrightarrow>
           hostname_result quiet_world (hostname_calls quiet_world) = Inr ''web1'')"
    by (simp add: reporter_on_def latency_registry_def quiet_world_def recognized_def)
  with C3_one_point_per_kind
    [of "reporter_on latency_registry True" quiet_world "''latency''" "Timer latency_timer"
      "''web1''" real_ops]
  obtain p where
    "write_calls (snd (send real_ops (reporter_on latency_registry True) quiet_world)) =
       write_calls quiet_world @
         [(client (reporter_on latency_registry True),
           \<lparr>Points = [p], Database = database (reporter_on latency_registry True)\<rparr>)]"
    "Measurement p =
       (if tagHost (reporter_on latency_registry True) then ''web1'' @ ''.'' else []) @
       ''latency'' @ spec_suffix (Timer latency_timer :: real instrument)"
    "set (map fst (Fields p)) = set (spec_field_keys (Timer latency_timer :: real instrument))"
    "distinct (map fst (Fields p))"
    by blast
  then show ?thesis
    by (intro exI [of _ p])
      (simp add: reporter_on_def quiet_world_def spec_suffix_def spec_field_keys_def
        spec_statistics_def insert_commute)
qed

subsection \<open>C4: no point for an unrecognized kind\<close>

text \<open>
  C4: in an emission that is not aborted, the batch holds one point for every registry
  entry of a recognized kind, in visiting order and under the suffix of its kind, and
  nothing else: an entry yields at most one point, and an entry of an unrecognized kind
  yields none. With five instruments of recognized kinds and one unrecognized instrument
  among them, the emission tick writes exactly the five points, \<^verbatim>\<open>send\<close> returns no error and
  nothing is logged.
\<close>

theorem C4_points_for_recognized_kinds_only:
  "((tagHost r \<longrightarrow> hostname_result w (hostname_calls w) = Inr h) \<longrightarrow>
    (\<exists>pts. write_calls (snd (send ops r w)) =
             write_calls w @ [(client r, \<lparr>Points = pts, Database = database r\<rparr>)] \<and>
           map Measurement pts =
             map (\<lambda>(n, i). (if tagHost r then h @ ''.'' else []) @ n @ spec_suffix i)
               (filter (\<lambda>(n, i). recognized i) (reg r (each_calls w))) \<and>
           length pts = length (filter (\<lambda>(n, i). recognized i) (reg r (each_calls w))) \<and>
           length pts \<le> length (reg r (each_calls w)))) \<and>
   map (map Measurement \<circ> Points \<circ> snd)
     (write_calls (on_intervalTicker real_ops (reporter_on mixed_registry False) quiet_world)) =
     [[''requests.count'', ''workers.gauge'', ''sizes.histogram'', ''events.meter'',
       ''latency.timer'']] \<and>
   fst (send real_ops (reporter_on mixed_registry False) quiet_world) = None \<and>
   log_output (on_intervalTicker real_ops (reporter_on mixed_registry False) quiet_world) = []"
proof (intro conjI impI)
  assume host: "tagHost r \<longrightarrow> hostname_result w (hostname_calls w) = Inr h"
  define pts where "pts = points_of ops (if tagHost r then h @ ''.'' else []) (clock w)
    (clock_reads w) (reg r (each_calls w))"
  have "write_calls (snd (send ops r w)) =
          write_calls w @ [(client r, \<lparr>Points = pts, Database = database r\<rparr>)]"
    unfolding pts_def by (rule send_writes(1) [OF host])
  moreover have "map Measurement pts =
      map (\<lambda>(n, i). (if tagHost r then h @ ''.'' else []) @ n @ spec_suffix i)
        (filter (\<lambda>(n, i). recognized i) (reg r (each_calls w)))"
    unfolding pts_def by (rule measurement_points_of)
  moreover have "length pts = length (filter (\<lambda>(n, i). recognized i) (reg r (each_calls w)))"
    unfolding pts_def by (rule length_points_of)
  moreover have "length pts \<le> length (reg r (each_calls w))"
    unfolding pts_def by (simp add: length_points_of)
  ultimately show "\<exists>pts. write_calls (snd (send ops r w)) =
             write_calls w @ [(client r, \<lparr>Points = pts, Database = database r\<rparr>)] \<and>
           map Measurement pts =
             map (\<lambda>(n, i). (if tagHost r then h @ ''.'' else []) @ n @ spec_suffix i)
               (filter (\<lambda>(n, i). recognized i) (reg r (each_calls w))) \<and>
           length pts = length (filter (\<lambda>(n, i). recognized i) (reg r (each_calls w))) \<and>
           length pts \<le> length (reg r (each_calls w))"
    by blast
next
  show "map (map Measurement \<circ> Points \<circ> snd)
     (write_calls (on_intervalTicker real_ops (reporter_on mixed_registry False) quiet_world)) =
     [[''requests.count'', ''workers.gauge'', ''sizes.histogram'', ''events.meter'',
       ''latency.timer'']]"
    by (simp add: on_intervalTicker_def send_untagged reporter_on_def quiet_world_def
        mixed_registry_def measurement_points_of recognized_def spec_suffix_def)
next
  show "fst (send real_ops (reporter_on mixed_registry False) quiet_world) = None"
    by (simp add: send_untagged reporter_on_def quiet_world_def)
next
  show "log_output (on_intervalTicker real_ops (reporter_on mixed_registry False) quiet_world)
          = []"
    by (simp add: on_intervalTicker_def send_untagged reporter_on_def quiet_world_def)
qed

text \<open>
  C4 on the registry of six entries with host tagging: five points, none for the entry
  \<^verbatim>\<open>health\<close>.
\<close>

theorem C4_points_for_recognized_kinds_only_witness:
  "\<exists>pts. write_calls (snd (send real_ops (reporter_on mixed_registry True) quiet_world)) =
           [(Some 0, \<lparr>Points = pts, Database = ''metrics''\<rparr>)] \<and>
         map Measurement pts =
           [''web1.requests.count'', ''web1.workers.gauge'', ''web1.sizes.histogram'',
            ''web1.events.meter'', ''web1.latency.timer''] \<and>
         length pts = 5"
proof -
  have "tagHost (reporter_on mixed_registry True) \<longrightarrow>
        hostname_result quiet_world (hostname_calls quiet_world) = Inr ''web1''"
    by (simp add: quiet_world_def)
  with C4_points_for_recognized_kinds_only
    [of "reporter_on mixed_registry True" quiet_world "''web1''" real_ops]
  obtain pts where
    "write_calls (snd (send real_ops (reporter_on mixed_registry True) quiet_world)) =
       write_calls quiet_world @
         [(client (reporter_on mixed_registry True),
           \<lparr>Points = pts, Database = database (reporter_on mixed_registry True)\<rparr>)]"
    "map Measurement pts =
       map (\<lambda>(n, i). (if tagHost (reporter_on mixed_registry True) then ''web1'' @ ''.'' else [])
              @ n @ spec_suffix i)
         (filter (\<lambda>(n, i). recognized i)
            (reg (reporter_on mixed_registry True) (each_calls quiet_world)))"
    "length pts = length (filter (\<lambda>(n, i). recognized i)
        (reg (reporter_on mixed_registry True) (each_calls quiet_world)))"
    by blast
  then show ?thesis
    by (intro exI [of _ pts])
      (simp add: reporter_on_def quiet_world_def mixed_registry_def recognized_def
        spec_suffix_def)
qed

subsection \<open>C5: the host name cannot be resolved\<close>

text \<open>
  C5: when host tagging is enabled and \<^verbatim>\<open>os.Hostname\<close> answers an error, \<^verbatim>\<open>send\<close> returns that
  error after the one call to \<^verbatim>\<open>os.Hostname\<close>: the registry is not visited, the clock is not
  read, and nothing is written. The loop logs the error and goes on with the ticks that
  follow.
\<close>

theorem C5_hostname_failure_aborts_emission:
  assumes "tagHost r" and "hostname_result w (hostname_calls w) = Inl err"
  shows "send ops r w = (Some err, w\<lparr>hostname_calls := Suc (hostname_calls w)\<rparr>) \<and>
         write_calls (snd (send ops r w)) = write_calls w \<and>
         each_calls (snd (send ops r w)) = each_calls w \<and>
         clock_reads (snd (send ops r w)) = clock_reads w \<and>
         run ops (intervalTicker # ts) r w =
           run ops ts r
             (w\<lparr>hostname_calls := Suc (hostname_calls w),
                log_output := log_output w @ [send_failed_line err]\<rparr>)"
  using assms
  by (simp add: send_hostname_error on_intervalTicker_def log_Printf_def send_failed_line_def)

text \<open>
  C5 on the world without a host name: the emission tick writes nothing and logs the
  error, and the ping tick that follows is served.
\<close>

theorem C5_hostname_failure_aborts_emission_witness:
  "fst (send real_ops (reporter_on mixed_registry True) nameless_world) =
     Some ''hostname: lookup failed'' \<and>
   write_calls (snd (send real_ops (reporter_on mixed_registry True) nameless_world)) = [] \<and>
   write_calls (snd (run real_ops [intervalTicker, pingTicker]
     (reporter_on mixed_registry True) nameless_world)) = [] \<and>
   log_output (snd (run real_ops [intervalTicker, pingTicker]
     (reporter_on mixed_registry True) nameless_world)) =
     [send_failed_line ''hostname: lookup failed''] \<and>
   ping_calls (snd (run real_ops [intervalTicker, pingTicker]
     (reporter_on mixed_registry True) nameless_world)) = [Some 0]"
proof -
  have t: "tagHost (reporter_on mixed_registry True)"
    by (simp add: reporter_on_def)
  have h: "hostname_result nameless_world (hostname_calls nameless_world) =
      Inl ''hostname: lookup failed''"
    by (simp add: nameless_world_def quiet_world_def)
  show ?thesis
    using C5_hostname_failure_aborts_emission [OF t h, of real_ops "[pingTicker]"]
    by (simp add: nameless_world_def quiet_world_def on_pingTicker_def client_Ping_def
        reporter_on_def)
qed

subsection \<open>C6: the host prefix\<close>

text \<open>
  C6: on one registry snapshot, one clock and one resolved host name \<open>h\<close>, the batch written
  without host tagging names every point by the name of its entry and the suffix of its
  kind, with no prefix, and the batch written with host tagging names the same points
  with \<open>h\<close> and a dot in front; fields and timestamps are the same in both.
\<close>

theorem C6_host_prefix:
  assumes "hostname_result w (hostname_calls w) = Inr h"
  shows "\<exists>pts pts'.
           write_calls (snd (send ops (r\<lparr>tagHost := False\<rparr>) w)) =
             write_calls w @ [(client r, \<lparr>Points = pts, Database = database r\<rparr>)] \<and>
           write_calls (snd (send ops (r\<lparr>tagHost := True\<rparr>) w)) =
             write_calls w @ [(client r, \<lparr>Points = pts', Database = database r\<rparr>)] \<and>
           map Measurement pts =
             map (\<lambda>(n, i). n @ spec_suffix i)
               (filter (\<lambda>(n, i). recognized i) (reg r (each_calls w))) \<and>
           map Measurement pts' = map (\<lambda>m. h @ ''.'' @ m) (map Measurement pts) \<and>
           map Fields pts' = map Fields pts \<and>
           map Time pts' = map Time pts"
proof -
  define pts where
    "pts = points_of ops [] (clock w) (clock_reads w) (reg r (each_calls w))"
  define pts' where
    "pts' = points_of ops (h @ ''.'') (clock w) (clock_reads w) (reg r (each_calls w))"
  have "write_calls (snd (send ops (r\<lparr>tagHost := False\<rparr>) w)) =
          write_calls w @ [(client r, \<lparr>Points = pts, Database = database r\<rparr>)]"
    by (simp add: send_untagged pts_def)
  moreover have "write_calls (snd (send ops (r\<lparr>tagHost := True\<rparr>) w)) =
          write_calls w @ [(client r, \<lparr>Points = pts', Database = database r\<rparr>)]"
    using assms by (simp add: send_tagged pts'_def)
  moreover have "map Measurement pts =
      map (\<lambda>(n, i). n @ spec_suffix i) (filter (\<lambda>(n, i). recognized i) (reg r (each_calls w)))"
    by (simp add: pts_def measurement_points_of)
  moreover have "map Measurement pts' = map (\<lambda>m. h @ ''.'' @ m) (map Measurement pts)"
    by (simp add: pts_def pts'_def measurement_points_of split_def)
  moreover have "map Fields pts' = map Fields pts"
    unfolding pts_def pts'_def by (rule fields_points_of)
  moreover have "map Time pts' = map Time pts"
    unfolding pts_def pts'_def by (rule time_points_of_host)
  ultimately show ?thesis by blast
qed

text \<open>
  C6 on the registry of six entries and the host \<^verbatim>\<open>web1\<close>: the names without and with the
  prefix \<^verbatim>\<open>web1.\<close>.
\<close>

theorem C6_host_prefix_witness:
  "map (map Measurement \<circ> Points \<circ> snd)
     (write_calls (snd (send real_ops (reporter_on mixed_registry False) quiet_world))) =
     [[''requests.count'', ''workers.gauge'', ''sizes.histogram'', ''events.meter'',
       ''latency.timer'']] \<and>
   map (map Measurement \<circ> Points \<circ> snd)
     (write_calls (snd (send real_ops (reporter_on mixed_registry True) quiet_world))) =
     [[''web1.requests.count'', ''web1.workers.gauge'', ''web1.sizes.histogram'',
       ''web1.events.meter'', ''web1.latency.timer'']]"
proof -
  have h: "hostname_result quiet_world (hostname_calls quiet_world) = Inr ''web1''"
    by (simp add: quiet_world_def)
  have f: "(reporter_on mixed_registry True)\<lparr>tagHost := False\<rparr> = reporter_on mixed_registry False"
    and t: "(reporter_on mixed_registry True)\<lparr>tagHost := True\<rparr> = reporter_on mixed_registry True"
    by (simp_all add: reporter_on_def)
  from C6_host_prefix [OF h, of real_ops "reporter_on mixed_registry True"]
  obtain pts pts' where
    "write_calls (snd (send real_ops (reporter_on mixed_registry False) quiet_world)) =
       write_calls quiet_world @
         [(client (reporter_on mixed_registry True),
           \<lparr>Points = pts, Database = database (reporter_on mixed_registry True)\<rparr>)]"
    "write_calls (snd (send real_ops (reporter_on mixed_registry True) quiet_world)) =
       write_calls quiet_world @
         [(client (reporter_on mixed_registry True),
           \<lparr>Points = pts', Database = database (reporter_on mixed_registry True)\<rparr>)]"
    "map Measurement pts =
       map (\<lambda>(n, i). n @ spec_suffix i)
         (filter (\<lambda>(n, i). recognized i)
            (reg (reporter_on mixed_registry True) (each_calls quiet_world)))"
    "map Measurement pts' = map (\<lambda>m. ''web1'' @ ''.'' @ m) (map Measurement pts)"
    unfolding f t by blast
  then show ?thesis
    by (simp add: reporter_on_def quiet_world_def mixed_registry_def recognized_def
        spec_suffix_def)
qed

subsection \<open>C7: startup is aborted on a configuration error\<close>

text \<open>
  C7: when the endpoint text does not parse, \<^verbatim>\<open>InfluxDB\<close> logs one line and returns; when it
  parses and the first construction of the client fails, \<^verbatim>\<open>InfluxDB\<close> has called
  \<^verbatim>\<open>client.NewClient\<close> once, logs one line and returns. In both cases the loop is not entered,
  whatever ticks are due: nothing is pinged, written or read, and nothing is tried again.
\<close>

theorem C7_startup_abort:
  "(parse_result w url_text = Inl err \<longrightarrow>
      InfluxDB ops r d url_text db user pw th ticks w =
        (Returned, w\<lparr>log_output := log_output w @ [parse_failed_line url_text err]\<rparr>)) \<and>
   (parse_result w url_text = Inr u \<and>
    new_client_result w (length (new_client_calls w))
      \<lparr>URL = u, Username = user, Password = pw\<rparr> = (c, Some err) \<longrightarrow>
      InfluxDB ops r d url_text db user pw th ticks w =
        (Returned,
         w\<lparr>new_client_calls :=
              new_client_calls w @ [\<lparr>URL = u, Username = user, Password = pw\<rparr>],
           log_output := log_output w @ [make_failed_line err]\<rparr>))"
  by (simp add: InfluxDB_def url_Parse_def log_Printf_def parse_failed_line_def
      make_failed_line_def makeClient_eq stored_config_def Let_def)

text \<open>
  C7 in the world whose parser rejects every text and in the world where no client can
  be built, with two ticks due.
\<close>

theorem C7_startup_abort_witness:
  "InfluxDB real_ops mixed_registry 10000000000 ''localhost:8086'' ''metrics'' ''admin''
     ''secret'' True [pingTicker, intervalTicker] unparsable_world =
     (Returned,
      unparsable_world\<lparr>log_output :=
        [parse_failed_line ''localhost:8086'' ''missing protocol scheme'']\<rparr>) \<and>
   InfluxDB real_ops mixed_registry 10000000000 ''http://localhost:8086'' ''metrics'' ''admin''
     ''secret'' True [pingTicker, intervalTicker] clientless_world =
     (Returned,
      clientless_world\<lparr>new_client_calls :=
        [\<lparr>URL = Parsed ''http://localhost:8086'', Username = ''admin'',
          Password = ''secret''\<rparr>],
        log_output := [make_failed_line ''no client'']\<rparr>)"
proof -
  have p: "parse_result unparsable_world ''localhost:8086'' = Inl ''missing protocol scheme''"
    by (simp add: unparsable_world_def)
  have c: "parse_result clientless_world ''http://localhost:8086'' =
        Inr (Parsed ''http://localhost:8086'') \<and>
      new_client_result clientless_world (length (new_client_calls clientless_world))
        \<lparr>URL = Parsed ''http://localhost:8086'', Username = ''admin'', Password = ''secret''\<rparr> =
        (None, Some ''no client'')"
    by (simp add: clientless_world_def quiet_world_def)
  show ?thesis
    using p c
      C7_startup_abort [of unparsable_world "''localhost:8086''" "''missing protocol scheme''"
        real_ops mixed_registry 10000000000 "''metrics''" "''admin''" "''secret''" True
        "[pingTicker, intervalTicker]"]
      C7_startup_abort [of clientless_world "''http://localhost:8086''" "''no client''"
        real_ops mixed_registry 10000000000 "''metrics''" "''admin''" "''secret''" True
        "[pingTicker, intervalTicker]" "Parsed ''http://localhost:8086''" None]
    by (simp add: unparsable_world_def clientless_world_def quiet_world_def)
qed

subsection \<open>C8: the health tick\<close>

text \<open>
  C8: a health tick pings the reporter's client. When the ping succeeds nothing else
  happens. When it fails, the failure is logged and \<^verbatim>\<open>client.NewClient\<close> is called exactly
  once, with the stored URL, user name and password; the reporter keeps the client that
  the call answers, and when the call fails that failure is logged as well and nothing
  more is done. In every case the loop goes on with the next tick, and every health tick
  of a run gets its ping. With the ping outcomes fail, fail, success, the client is built
  again after each of the two failed pings, with the stored configuration, and all three
  ticks are served.
\<close>

theorem C8_health_tick:
  "(ping_result w (length (ping_calls w)) (client r) = None \<longrightarrow>
      on_pingTicker r w = (r, w\<lparr>ping_calls := ping_calls w @ [client r]\<rparr>)) \<and>
   (ping_result w (length (ping_calls w)) (client r) = Some err \<and>
    new_client_result w (length (new_client_calls w)) (stored_config r) = (c, None) \<longrightarrow>
      on_pingTicker r w =
        (r\<lparr>client := c\<rparr>,
         w\<lparr>ping_calls := ping_calls w @ [client r],
           new_client_calls := new_client_calls w @ [stored_config r],
           log_output := log_output w @ [ping_failed_line err]\<rparr>)) \<and>
   (ping_result w (length (ping_calls w)) (client r) = Some err \<and>
    new_client_result w (length (new_client_calls w)) (stored_config r) = (c, Some err') \<longrightarrow>
      on_pingTicker r w =
        (r\<lparr>client := c\<rparr>,
         w\<lparr>ping_calls := ping_calls w @ [client r],
           new_client_calls := new_client_calls w @ [stored_config r],
           log_output := log_output w @ [ping_failed_line err, make_failed_line err']\<rparr>)) \<and>
   run ops (pingTicker # ts) r w =
     run ops ts (fst (on_pingTicker r w)) (snd (on_pingTicker r w)) \<and>
   length (ping_calls (snd (run ops ts r w))) = length (ping_calls w) + count_list ts pingTicker \<and>
   new_client_calls (snd (run real_ops [pingTicker, pingTicker, pingTicker]
     (reporter_on mixed_registry False) outage_world)) =
     [stored_config (reporter_on mixed_registry False),
      stored_config (reporter_on mixed_registry False)] \<and>
   ping_calls (snd (run real_ops [pingTicker, pingTicker, pingTicker]
     (reporter_on mixed_registry False) outage_world)) = [Some 0, Some 0, Some 1] \<and>
   client (fst (run real_ops [pingTicker, pingTicker, pingTicker]
     (reporter_on mixed_registry False) outage_world)) = Some 1 \<and>
   log_output (snd (run real_ops [pingTicker, pingTicker, pingTicker]
     (reporter_on mixed_registry False) outage_world)) =
     [ping_failed_line ''connection refused'', ping_failed_line ''connection refused'']"
proof (intro conjI impI)
  assume "ping_result w (length (ping_calls w)) (client r) = None"
  then show "on_pingTicker r w = (r, w\<lparr>ping_calls := ping_calls w @ [client r]\<rparr>)"
    by (simp add: on_pingTicker_def client_Ping_def)
next
  assume "ping_result w (length (ping_calls w)) (client r) = Some err \<and>
    new_client_result w (length (new_client_calls w)) (stored_config r) = (c, None)"
  then show "on_pingTicker r w =
        (r\<lparr>client := c\<rparr>,
         w\<lparr>ping_calls := ping_calls w @ [client r],
           new_client_calls := new_client_calls w @ [stored_config r],
           log_output := log_output w @ [ping_failed_line err]\<rparr>)"
    by (simp add: on_pingTicker_def client_Ping_def makeClient_eq log_Printf_def
        ping_failed_line_def Let_def)
next
  assume "ping_result w (length (ping_calls w)) (client r) = Some err \<and>
    new_client_result w (length (new_client_calls w)) (stored_config r) = (c, Some err')"
  then show "on_pingTicker r w =
        (r\<lparr>client := c\<rparr>,
         w\<lparr>ping_calls := ping_calls w @ [client r],
           new_client_calls := new_client_calls w @ [stored_config r],
           log_output := log_output w @ [ping_failed_line err, make_failed_line err']\<rparr>)"
    by (simp add: on_pingTicker_def client_Ping_def makeClient_eq log_Printf_def
        ping_failed_line_def make_failed_line_def Let_def)
next
  show "run ops (pingTicker # ts) r w =
     run ops ts (fst (on_pingTicker r w)) (snd (on_pingTicker r w))"
    by (simp add: split_def)
next
  show "length (ping_calls (snd (run ops ts r w))) =
      length (ping_calls w) + count_list ts pingTicker"
    by (rule length_ping_calls_run)
next
  show "new_client_calls (snd (run real_ops [pingTicker, pingTicker, pingTicker]
     (reporter_on mixed_registry False) outage_world)) =
     [stored_config (reporter_on mixed_registry False),
      stored_config (reporter_on mixed_registry False)]"
    by (simp add: on_pingTicker_def client_Ping_def makeClient_eq log_Printf_def Let_def
        outage_world_def quiet_world_def reporter_on_def stored_config_def)
next
  show "ping_calls (snd (run real_ops [pingTicker, pingTicker, pingTicker]
     (reporter_on mixed_registry False) outage_world)) = [Some 0, Some 0, Some 1]"
    by (simp add: on_pingTicker_def client_Ping_def makeClient_eq log_Printf_def Let_def
        outage_world_def quiet_world_def reporter_on_def stored_config_def)
next
  show "client (fst (run real_ops [pingTicker, pingTicker, pingTicker]
     (reporter_on mixed_registry False) outage_world)) = Some 1"
    by (simp add: on_pingTicker_def client_Ping_def makeClient_eq log_Printf_def Let_def
        outage_world_def quiet_world_def reporter_on_def stored_config_def)
next
  show "log_output (snd (run real_ops [pingTicker, pingTicker, pingTicker]
     (reporter_on mixed_registry False) outage_world)) =
     [ping_failed_line ''connection refused'', ping_failed_line ''connection refused'']"
    by (simp add: on_pingTicker_def client_Ping_def makeClient_eq log_Printf_def Let_def
        outage_world_def quiet_world_def reporter_on_def stored_config_def ping_failed_line_def)
qed

text \<open>
  C8 on single health ticks: a ping that succeeds, a failed ping with a successful
  rebuild, and a failed ping with a failed rebuild.
\<close>

theorem C8_health_tick_witness:
  "on_pingTicker (reporter_on mixed_registry False) quiet_world =
     (reporter_on mixed_registry False, quiet_world\<lparr>ping_calls := [Some 0]\<rparr>) \<and>
   on_pingTicker (reporter_on mixed_registry False) outage_world =
     ((reporter_on mixed_registry False)\<lparr>client := Some 0\<rparr>,
      outage_world\<lparr>ping_calls := [Some 0],
        new_client_calls := [stored_config (reporter_on mixed_registry False)],
        log_output := [ping_failed_line ''connection refused'']\<rparr>) \<and>
   on_pingTicker (reporter_on mixed_registry False) cut_off_world =
     ((reporter_on mixed_registry False)\<lparr>client := None\<rparr>,
      cut_off_world\<lparr>ping_calls := [Some 0],
        new_client_calls := [stored_config (reporter_on mixed_registry False)],
        log_output := [ping_failed_line ''connection refused'', make_failed_line ''no client'']\<rparr>)"
proof -
  have a: "ping_result quiet_world (length (ping_calls quiet_world))
      (client (reporter_on mixed_registry False)) = None"
    by (simp add: quiet_world_def)
  have b: "ping_result outage_world (length (ping_calls outage_world))
        (client (reporter_on mixed_registry False)) = Some ''connection refused'' \<and>
      new_client_result outage_world (length (new_client_calls outage_world))
        (stored_config (reporter_on mixed_registry False)) = (Some 0, None)"
    by (simp add: outage_world_def quiet_world_def)
  have c: "ping_result cut_off_world (length (ping_calls cut_off_world))
        (client (reporter_on mixed_registry False)) = Some ''connection refused'' \<and>
      new_client_result cut_off_world (length (new_client_calls cut_off_world))
        (stored_config (reporter_on mixed_registry False)) = (None, Some ''no client'')"
    by (simp add: cut_off_world_def outage_world_def quiet_world_def)
  have "on_pingTicker (reporter_on mixed_registry False) quiet_world =
      (reporter_on mixed_registry False,
       quiet_world\<lparr>ping_calls :=
         ping_calls quiet_world @ [client (reporter_on mixed_registry False)]\<rparr>)"
    using a C8_health_tick [of quiet_world "reporter_on mixed_registry False"] by blast
  moreover have "on_pingTicker (reporter_on mixed_registry False) outage_world =
      ((reporter_on mixed_registry False)\<lparr>client := Some 0\<rparr>,
       outage_world\<lparr>ping_calls :=
           ping_calls outage_world @ [client (reporter_on mixed_registry False)],
         new_client_calls :=
           new_client_calls outage_world @ [stored_config (reporter_on mixed_registry False)],
         log_output := log_output outage_world @ [ping_failed_line ''connection refused'']\<rparr>)"
    using b C8_health_tick [of outage_world "reporter_on mixed_registry False"
        "''connection refused''" "Some 0"] by blast
  moreover have "on_pingTicker (reporter_on mixed_registry False) cut_off_world =
      ((reporter_on mixed_registry False)\<lparr>client := None\<rparr>,
       cut_off_world\<lparr>ping_calls :=
           ping_calls cut_off_world @ [client (reporter_on mixed_registry False)],
         new_client_calls :=
           new_client_calls cut_off_world @ [stored_config (reporter_on mixed_registry False)],
         log_output := log_output cut_off_world @
           [ping_failed_line ''connection refused'', make_failed_line ''no client'']\<rparr>)"
    using c C8_health_tick [of cut_off_world "reporter_on mixed_registry False"
        "''connection refused''" None "''no client''"] by blast
  ultimately show ?thesis
    by (simp add: quiet_world_def outage_world_def cut_off_world_def reporter_on_def)
qed

subsection \<open>C9: integer division for \<open>max\<close> and \<open>min\<close>\<close>

text \<open>
  C9 as stated says that every source duration strictly below 1000000 ns yields the
  field value 0. The statistics of a timer are \<^verbatim>\<open>int64\<close> values, and a timer that was updated
  with a negative duration reports a negative minimum: the minimum \<open>- 3000000\<close> ns is below
  1000000 ns and yields the field value \<open>- 3\<close>.
\<close>

theorem C9_negative_duration_counterexample:
  "sint (t_Min negative_timer) < 1000000 \<and>
   map_of (Fields (hd (fst (each_callback real_ops []
     (''latency'', Timer negative_timer) ([], quiet_world))))) ''min'' = Some (Int64 (- 3)) \<and>
   Int64 (- 3) \<noteq> (Int64 0 :: real field_value)"
  by (simp add: each_callback_eq type_switch_def Let_def ms_nanoseconds negative_timer_def
      latency_timer_def int64_div_def signed_divide_int_def)

text \<open>
  C9, amended: the fields \<open>max\<close> and \<open>min\<close> of a timer are the quotients of the \<^verbatim>\<open>int64\<close>
  division by 1000000, which truncates toward zero: the quotient has the sign of the
  source and the magnitude of the source divided by 1000000 and rounded down, so what is
  lost is less than a millisecond, and a source duration of magnitude below 1000000 ns
  (strictly between \<open>- 1000000\<close> and 1000000) yields 0. The fields \<open>mean\<close>, \<open>stddev\<close>,
  \<open>variance\<close> and the six percentiles are quotients of the \<^verbatim>\<open>float64\<close> division by
  \<^verbatim>\<open>float64(1000000)\<close>. For a timer with max 1500000 ns, min 999999 ns and mean 1500000 ns
  the fields are max = 1, min = 0 and mean = 1.5.
\<close>

theorem C9_timer_integer_and_float_division:
  "(\<exists>p q_max q_min.
      each_callback ops host (name, Timer t) (pts, w) =
        (pts @ [p], w\<lparr>clock_reads := Suc (clock_reads w)\<rparr>) \<and>
      map_of (Fields p) ''max'' = Some (Int64 q_max) \<and>
      map_of (Fields p) ''min'' = Some (Int64 q_min) \<and>
      sint q_max = sgn (sint (t_Max t)) * (\<bar>sint (t_Max t)\<bar> div 1000000) \<and>
      sint q_min = sgn (sint (t_Min t)) * (\<bar>sint (t_Min t)\<bar> div 1000000) \<and>
      \<bar>sint (t_Max t) - 1000000 * sint q_max\<bar> < 1000000 \<and>
      \<bar>sint (t_Min t) - 1000000 * sint q_min\<bar> < 1000000 \<and>
      (\<bar>sint (t_Max t)\<bar> < 1000000 \<longrightarrow> q_max = 0) \<and>
      (\<bar>sint (t_Min t)\<bar> < 1000000 \<longrightarrow> q_min = 0) \<and>
      map_of (Fields p) ''mean'' = Some (Float64 (fdiv ops (t_Mean t) (float64 ops 1000000))) \<and>
      map_of (Fields p) ''stddev'' =
        Some (Float64 (fdiv ops (t_StdDev t) (float64 ops 1000000))) \<and>
      map_of (Fields p) ''variance'' =
        Some (Float64 (fdiv ops (t_Variance t) (float64 ops 1000000))) \<and>
      map_of (Fields p) ''p50'' =
        Some (Float64 (fdiv ops (t_Percentile t (5 / 10)) (float64 ops 1000000))) \<and>
      map_of (Fields p) ''p75'' =
        Some (Float64 (fdiv ops (t_Percentile t (75 / 100)) (float64 ops 1000000))) \<and>
      map_of (Fields p) ''p95'' =
        Some (Float64 (fdiv ops (t_Percentile t (95 / 100)) (float64 ops 1000000))) \<and>
      map_of (Fields p) ''p99'' =
        Some (Float64 (fdiv ops (t_Percentile t (99 / 100)) (float64 ops 1000000))) \<and>
      map_of (Fields p) ''p999'' =
        Some (Float64 (fdiv ops (t_Percentile t (999 / 1000)) (float64 ops 1000000))) \<and>
      map_of (Fields p) ''p9999'' =
        Some (Float64 (fdiv ops (t_Percentile t (9999 / 10000)) (float64 ops 1000000)))) \<and>
   map (map_of (Fields (hd (fst (each_callback real_ops []
          (''latency'', Timer short_timer) ([], quiet_world))))))
     [''max'', ''min'', ''mean''] =
   [Some (Int64 1), Some (Int64 0), Some (Float64 (3 / 2))]"
proof
  define p where "p = hd (type_switch ops (host @ name) (clock w (clock_reads w)) (Timer t) [])"
  have cb: "each_callback ops host (name, Timer t) (pts, w) =
      (pts @ [p], w\<lparr>clock_reads := Suc (clock_reads w)\<rparr>)"
    by (simp add: p_def each_callback_eq type_switch_def Let_def)
  have mx: "map_of (Fields p) ''max'' = Some (Int64 (int64_div (t_Max t) 1000000))"
    and mn: "map_of (Fields p) ''min'' = Some (Int64 (int64_div (t_Min t) 1000000))"
    by (simp_all add: p_def type_switch_def Let_def ms_nanoseconds)
  have fl: "map_of (Fields p) ''mean'' =
        Some (Float64 (fdiv ops (t_Mean t) (float64 ops 1000000))) \<and>
      map_of (Fields p) ''stddev'' =
        Some (Float64 (fdiv ops (t_StdDev t) (float64 ops 1000000))) \<and>
      map_of (Fields p) ''variance'' =
        Some (Float64 (fdiv ops (t_Variance t) (float64 ops 1000000))) \<and>
      map_of (Fields p) ''p50'' =
        Some (Float64 (fdiv ops (t_Percentile t (5 / 10)) (float64 ops 1000000))) \<and>
      map_of (Fields p) ''p75'' =
        Some (Float64 (fdiv ops (t_Percentile t (75 / 100)) (float64 ops 1000000))) \<and>
      map_of (Fields p) ''p95'' =
        Some (Float64 (fdiv ops (t_Percentile t (95 / 100)) (float64 ops 1000000))) \<and>
      map_of (Fields p) ''p99'' =
        Some (Float64 (fdiv ops (t_Percentile t (99 / 100)) (float64 ops 1000000))) \<and>
      map_of (Fields p) ''p999'' =
        Some (Float64 (fdiv ops (t_Percentile t (999 / 1000)) (float64 ops 1000000))) \<and>
      map_of (Fields p) ''p9999'' =
        Some (Float64 (fdiv ops (t_Percentile t (9999 / 10000)) (float64 ops 1000000)))"
    by (simp add: p_def type_switch_def Let_def ms_nanoseconds t_Percentiles_def
        percentile_fractions_def)
  have q: "sint (int64_div d 1000000) = sgn (sint d) * (\<bar>sint d\<bar> div 1000000)"
      "\<bar>sint d - 1000000 * sint (int64_div d 1000000)\<bar> < 1000000"
      "\<bar>sint d\<bar> < 1000000 \<longrightarrow> int64_div d 1000000 = 0" for d
    using sdiv_ms_remainder [of "sint d"]
    by (simp_all add: sint_int64_div_ms int64_div_ms_small) (simp add: signed_divide_int_def)
  show "\<exists>p q_max q_min.
      each_callback ops host (name, Timer t) (pts, w) =
        (pts @ [p], w\<lparr>clock_reads := Suc (clock_reads w)\<rparr>) \<and>
      map_of (Fields p) ''max'' = Some (Int64 q_max) \<and>
      map_of (Fields p) ''min'' = Some (Int64 q_min) \<and>
      sint q_max = sgn (sint (t_Max t)) * (\<bar>sint (t_Max t)\<bar> div 1000000) \<and>
      sint q_min = sgn (sint (t_Min t)) * (\<bar>sint (t_Min t)\<bar> div 1000000) \<and>
      \<bar>sint (t_Max t) - 1000000 * sint q_max\<bar> < 1000000 \<and>
      \<bar>sint (t_Min t) - 1000000 * sint q_min\<bar> < 1000000 \<and>
      (\<bar>sint (t_Max t)\<bar> < 1000000 \<longrightarrow> q_max = 0) \<and>
      (\<bar>sint (t_Min t)\<bar> < 1000000 \<longrightarrow> q_min = 0) \<and>
      map_of (Fields p) ''mean'' = Some (Float64 (fdiv ops (t_Mean t) (float64 ops 1000000))) \<and>
      map_of (Fields p) ''stddev'' =
        Some (Float64 (fdiv ops (t_StdDev t) (float64 ops 1000000))) \<and>
      map_of (Fields p) ''variance'' =
        Some (Float64 (fdiv ops (t_Variance t) (float64 ops 1000000))) \<and>
      map_of (Fields p) ''p50'' =
        Some (Float64 (fdiv ops (t_Percentile t (5 / 10)) (float64 ops 1000000))) \<and>
      map_of (Fields p) ''p75'' =
        Some (Float64 (fdiv ops (t_Percentile t (75 / 100)) (float64 ops 1000000))) \<and>
      map_of (Fields p) ''p95'' =
        Some (Float64 (fdiv ops (t_Percentile t (95 / 100)) (float64 ops 1000000))) \<and>
      map_of (Fields p) ''p99'' =
        Some (Float64 (fdiv ops (t_Percentile t (99 / 100)) (float64 ops 1000000))) \<and>
      map_of (Fields p) ''p999'' =
        Some (Float64 (fdiv ops (t_Percentile t (999 / 1000)) (float64 ops 1000000))) \<and>
      map_of (Fields p) ''p9999'' =
        Some (Float64 (fdiv ops (t_Percentile t (9999 / 10000)) (float64 ops 1000000)))"
    apply (rule exI [of _ p])
    apply (rule exI [of _ "int64_div (t_Max t) 1000000"])
    apply (rule exI [of _ "int64_div (t_Min t) 1000000"])
    using cb mx mn fl q [of "t_Max t"] q [of "t_Min t"]
    apply (intro conjI)
    apply blast+
    done
next
  show "map (map_of (Fields (hd (fst (each_callback real_ops []
          (''latency'', Timer short_timer) ([], quiet_world))))))
     [''max'', ''min'', ''mean''] =
   [Some (Int64 1), Some (Int64 0), Some (Float64 (3 / 2))]"
    by (simp add: each_callback_eq type_switch_def Let_def ms_nanoseconds real_ops_def
        short_timer_def latency_timer_def int64_div_def signed_divide_int_def)
qed

text \<open>
  C9, amended, on the timer with min 999999 ns: the magnitude is below 1000000, so the
  field \<open>min\<close> is 0.
\<close>

theorem C9_timer_integer_and_float_division_witness:
  "\<bar>sint (t_Min short_timer)\<bar> < 1000000 \<and>
   (\<exists>p. each_callback real_ops [] (''latency'', Timer short_timer) ([], quiet_world) =
          ([p], quiet_world\<lparr>clock_reads := Suc (clock_reads quiet_world)\<rparr>) \<and>
        map_of (Fields p) ''min'' = Some (Int64 0))"
proof -
  have small: "\<bar>sint (t_Min short_timer)\<bar> < 1000000"
    by (simp add: short_timer_def)
  from C9_timer_integer_and_float_division
    [of real_ops "[]" "''latency''" short_timer "[]" quiet_world]
  obtain p q_max q_min where
    "each_callback real_ops [] (''latency'', Timer short_timer) ([], quiet_world) =
       ([] @ [p], quiet_world\<lparr>clock_reads := Suc (clock_reads quiet_world)\<rparr>)"
    "map_of (Fields p) ''min'' = Some (Int64 q_min)"
    "\<bar>sint (t_Min short_timer)\<bar> < 1000000 \<longrightarrow> q_min = 0"
    by blast
  with small show ?thesis by auto
qed

subsection \<open>C10: one write per emission\<close>

text \<open>
  C10: an emission that is not aborted by the host name makes exactly one call to the
  client's \<^verbatim>\<open>Write\<close>, on the reporter's client, with the points built and the configured
  database name, and \<^verbatim>\<open>send\<close> returns what that call returns. When the registry is empty the
  batch written has no points.
\<close>

theorem C10_one_write_per_emission:
  assumes "tagHost r \<longrightarrow> hostname_result w (hostname_calls w) = Inr h"
  shows "\<exists>pts. write_calls (snd (send ops r w)) =
                 write_calls w @ [(client r, \<lparr>Points = pts, Database = database r\<rparr>)] \<and>
               fst (send ops r w) =
                 write_result w (length (write_calls w)) (client r)
                   \<lparr>Points = pts, Database = database r\<rparr> \<and>
               (reg r (each_calls w) = [] \<longrightarrow> pts = [])"
  using send_writes [OF assms, of ops]
  by (auto simp add: points_of_Nil)

text \<open>
  C10 on the empty registry, with host tagging, in a world where the write fails: the
  empty batch is written all the same, and the error of the write is returned.
\<close>

theorem C10_one_write_per_emission_witness:
  "write_calls (snd (send real_ops (reporter_on empty_registry True) refusing_world)) =
     [(Some 0, \<lparr>Points = [], Database = ''metrics''\<rparr>)] \<and>
   fst (send real_ops (reporter_on empty_registry True) refusing_world) = Some ''write refused''"
proof -
  have "tagHost (reporter_on empty_registry True) \<longrightarrow>
        hostname_result refusing_world (hostname_calls refusing_world) = Inr ''web1''"
    by (simp add: refusing_world_def quiet_world_def)
  from C10_one_write_per_emission [OF this, of real_ops]
  show ?thesis
    by (auto simp add: reporter_on_def refusing_world_def quiet_world_def empty_registry_def)
qed

end
